theory Spec2Isabelle
  imports Complex_Main "HOL-Library.Word" "HOL-Library.List_Lexorder"
begin

section \<open>JavaScript strings\<close>

text \<open>
  A JavaScript string is a sequence of 16-bit code units; \<open>===\<close> on strings is equality of
  these sequences.  The stock names of the provider are Chinese, so bytes would not do.
  An ASCII literal of the source is written \<open>js ''...''\<close>.
\<close>

type_synonym code_unit = "16 word"
type_synonym jsstring = "code_unit list"

definition js :: "string \<Rightarrow> jsstring" where
  "js s = map (\<lambda>c. word_of_nat (of_char c)) s"

text \<open>
  \<open>String.prototype.trim\<close> removes, at both ends, the code points of WhiteSpace and
  LineTerminator of ECMAScript: TAB, LF, VT, FF, CR, SP, NBSP, U+1680, U+2000 to U+200A,
  U+2028, U+2029, U+202F, U+205F, U+3000 and U+FEFF.  All of them are single code units.
\<close>

definition isWhiteSpace :: "code_unit \<Rightarrow> bool" where
  "isWhiteSpace c \<longleftrightarrow>
     (0x09 \<le> c \<and> c \<le> 0x0D) \<or> c = 0x20 \<or> c = 0xA0 \<or> c = 0x1680 \<or>
     (0x2000 \<le> c \<and> c \<le> 0x200A) \<or> c = 0x2028 \<or> c = 0x2029 \<or> c = 0x202F \<or>
     c = 0x205F \<or> c = 0x3000 \<or> c = 0xFEFF"

definition trim :: "jsstring \<Rightarrow> jsstring" where
  "trim s = rev (dropWhile isWhiteSpace (rev (dropWhile isWhiteSpace s)))"

text \<open>The class \<open>\d\<close> of a regular expression without the \<open>u\<close> flag is \<open>[0-9]\<close>.\<close>

definition isDigit :: "code_unit \<Rightarrow> bool" where
  "isDigit c \<longleftrightarrow> 0x30 \<le> c \<and> c \<le> 0x39"

text \<open>\<open>/^\d+$/.test(s)\<close>: one or more digits and nothing else (no \<open>m\<close> flag).\<close>

definition allDigits :: "jsstring \<Rightarrow> bool" where
  "allDigits s \<longleftrightarrow> s \<noteq> [] \<and> list_all isDigit s"

text \<open>\<open>s.includes(sub)\<close>: \<open>sub\<close> occurs in \<open>s\<close> at some position, scanned from the left.\<close>

fun js_includes :: "'a list \<Rightarrow> 'a list \<Rightarrow> bool" where
  "js_includes [] sub = (sub = [])"
| "js_includes (c # cs) sub = (take (length sub) (c # cs) = sub \<or> js_includes cs sub)"

section \<open>The stock list and its cache\<close>

text \<open>An entry of the dataset \<open>TaiwanStockInfo\<close>, with the two fields the code reads.\<close>

record stock_entry =
  stock_id :: jsstring
  stock_name :: jsstring

text \<open>
  What a \<open>fetch\<close> followed by \<open>res.json()\<close> can give: the request is rejected, or it
  resolves with the flag \<open>res.ok\<close> and a body; the body does not parse, or it is an
  envelope whose property \<open>data\<close> is missing (or falsy) or an array.  A body that parses to
  something without properties (\<open>null\<close>) makes \<open>json.data\<close> throw inside the same
  \<open>try\<close> block as a parse error does, and is taken as \<open>Unparseable\<close>.
\<close>

datatype 'r http_body = Unparseable | Envelope "'r list option"

datatype 'r http = NetworkFailure | Response bool "'r http_body"

text \<open>
  The module state is the variable \<open>stockListCache\<close>.  Two ghost counters record what the
  code does with it: the \<open>TaiwanStockInfo\<close> requests issued and the assignments to the cache.
\<close>

record proc =
  stockListCache :: "stock_entry list option"
  requests :: nat
  stores :: nat

definition initial :: proc where
  "initial = \<lparr>stockListCache = None, requests = 0, stores = 0\<rparr>"

text \<open>
  \<open>getStockList\<close> is an async function: it runs up to its first \<open>await\<close> (the cache test
  and, on a miss, the request), and is resumed when the response arrives.  An array is
  truthy also when it is empty, so any cached array is a hit.
\<close>

definition getStockList_begin :: "proc \<Rightarrow> stock_entry list option \<times> proc" where
  "getStockList_begin s =
     (case stockListCache s of
        Some l \<Rightarrow> (Some l, s)
      | None \<Rightarrow> (None, s\<lparr>requests := requests s + 1\<rparr>))"

definition getStockList_resume :: "stock_entry http \<Rightarrow> proc \<Rightarrow> stock_entry list \<times> proc" where
  "getStockList_resume r s =
     (case r of
        Response ok (Envelope (Some d)) \<Rightarrow> (d, s\<lparr>stockListCache := Some d, stores := stores s + 1\<rparr>)
      | _ \<Rightarrow> ([], s))"

text \<open>A call that is not overlapped by another one; \<open>r\<close> is what its request would receive.\<close>

definition getStockList :: "stock_entry http \<Rightarrow> proc \<Rightarrow> stock_entry list \<times> proc" where
  "getStockList r s =
     (case getStockList_begin s of
        (Some l, s') \<Rightarrow> (l, s')
      | (None, s') \<Rightarrow> getStockList_resume r s')"

definition resolveStockId :: "stock_entry http \<Rightarrow> jsstring \<Rightarrow> proc \<Rightarrow> jsstring option \<times> proc" where
  "resolveStockId r query s =
     (let trimmed = trim query in
      if trimmed = [] then (None, s)
      else if allDigits trimmed then (Some trimmed, s)
      else
        let (list, s') = getStockList r s in
        case find (\<lambda>e. stock_name e = trimmed \<or> stock_id e = trimmed) list of
          Some match \<Rightarrow> (Some (stock_id match), s')
        | None \<Rightarrow>
            (case find (\<lambda>e. js_includes (stock_name e) trimmed) list of
               Some fuzzyMatch \<Rightarrow> (Some (stock_id fuzzyMatch), s')
             | None \<Rightarrow> (None, s')))"

definition fetchStockName :: "stock_entry http \<Rightarrow> jsstring \<Rightarrow> proc \<Rightarrow> jsstring \<times> proc" where
  "fetchStockName r stockId s =
     (let (list, s') = getStockList r s in
      case find (\<lambda>e. stock_id e = stockId) list of
        Some match \<Rightarrow> (stock_name match, s')
      | None \<Rightarrow> (stockId, s'))"

section \<open>Requirement 1 as the specification words it\<close>

text \<open>
  The resolution order in the words of the specification: a query that is all digits after
  trimming is returned itself; otherwise the identifier of the first entry whose name
  equals the query; otherwise that of the first entry whose name contains the query;
  otherwise nothing.  It is compared with \<open>resolveStockId\<close> below.
\<close>

definition spec_resolveStockId :: "stock_entry list \<Rightarrow> jsstring \<Rightarrow> jsstring option" where
  "spec_resolveStockId list query =
     (if allDigits (trim query) then Some query
      else case find (\<lambda>e. stock_name e = query) list of
          Some e \<Rightarrow> Some (stock_id e)
        | None \<Rightarrow>
            (case find (\<lambda>e. js_includes (stock_name e) query) list of
               Some e \<Rightarrow> Some (stock_id e)
             | None \<Rightarrow> None))"

section \<open>Numbers and exceptions\<close>

text \<open>
  A JavaScript number is an IEEE 754 double.  The fetch operations are modelled over any
  type \<open>'n\<close> with operations \<open>0\<close>, \<open>+\<close>, \<open>-\<close>, \<open>*\<close>, \<open>/\<close> and \<open>\<le>\<close> of which no law is
  assumed, so that what is proved holds for doubles, in the order of evaluation of the
  source.  What the runtime adds is a parameter: \<open>parseFloat(x.toFixed(2))\<close>,
  \<open>x.toFixed(0)\<close> and the literals \<open>100\<close> and \<open>100000000\<close>.
\<close>

record 'n js_number =
  toFixed2 :: "'n \<Rightarrow> 'n"
  toFixed0 :: "'n \<Rightarrow> jsstring"
  lit_100 :: 'n
  lit_100000000 :: 'n

text \<open>What a \<open>try\<close> block of the two services can throw.\<close>

datatype exn =
    FetchRejected
  | NetworkError
  | JsonRejected
  | GenerateContentRejected jsstring
  | SyntaxError
  | TypeError

text \<open>\<open>xs[i]\<close> on an array is \<open>undefined\<close> out of range.\<close>

definition js_at :: "'a list \<Rightarrow> int \<Rightarrow> 'a option" where
  "js_at xs i = (if 0 \<le> i \<and> i < int (length xs) then Some (xs ! nat i) else None)"

section \<open>Rows of the datasets\<close>

record dated =
  date :: jsstring

record 'n price_bar = dated +
  close :: 'n
  Trading_Volume :: 'n

record 'n flow_row = dated +
  name :: jsstring
  buy :: 'n
  sell :: 'n

record 'n per_row = dated +
  PER :: 'n
  PBR :: 'n

section \<open>fetchMarketIndex\<close>

datatype 'n market_index =
    MarketIndex (mi_price: 'n) (mi_change: 'n) (mi_pct: 'n) (mi_volume: jsstring)
      (mi_date: jsstring) (mi_status: jsstring)
  | MarketIndexStatus (mi_status: jsstring)

text \<open>\<open>data[data.length - 2] || latest\<close>: a row is an object, hence truthy.\<close>

definition previous :: "'a list \<Rightarrow> 'a \<Rightarrow> 'a" where
  "previous data latest =
     (case js_at data (int (length data) - 2) of Some prev \<Rightarrow> prev | None \<Rightarrow> latest)"

definition fetchMarketIndex_try ::
  "('n::{minus,times,divide}) js_number \<Rightarrow> 'n price_bar http \<Rightarrow> exn + 'n market_index" where
  "fetchMarketIndex_try env res =
     (case res of
        NetworkFailure \<Rightarrow> Inl FetchRejected
      | Response ok body \<Rightarrow>
          if \<not> ok then Inl NetworkError
          else
            (case body of
               Unparseable \<Rightarrow> Inl JsonRejected
             | Envelope None \<Rightarrow> Inr (MarketIndexStatus (js ''nodata''))
             | Envelope (Some data) \<Rightarrow>
                 if length data > 0 then
                   (let latest = last data;
                        prev = previous data latest;
                        change = close latest - close prev;
                        pct = divide change (close prev) * lit_100 env;
                        volume = toFixed0 env (divide (Trading_Volume latest) (lit_100000000 env))
                    in Inr (MarketIndex (close latest) (toFixed2 env change) (toFixed2 env pct)
                              volume (date latest) (js ''success'')))
                 else Inr (MarketIndexStatus (js ''nodata''))))"

definition fetchMarketIndex ::
  "('n::{minus,times,divide}) js_number \<Rightarrow> 'n price_bar http \<Rightarrow> 'n market_index" where
  "fetchMarketIndex env res =
     (case fetchMarketIndex_try env res of
        Inr v \<Rightarrow> v
      | Inl error \<Rightarrow> MarketIndexStatus (js ''error''))"

section \<open>fetchInstitutionalInvestors\<close>

datatype 'n fund_flow =
    FundFlow (ff_total: 'n) (ff_date: jsstring) (ff_status: jsstring) (ff_apiStatus: jsstring)
  | FundFlowStatus (ff_apiStatus: jsstring)

text \<open>The \<open>forEach\<close> loop: \<open>totalNet += (item.buy - item.sell)\<close>, from 0.\<close>

definition totalNet_of :: "('n::{zero,plus,minus}) flow_row list \<Rightarrow> 'n" where
  "totalNet_of dailyData = foldl (\<lambda>totalNet item. totalNet + (buy item - sell item)) 0 dailyData"

definition fetchInstitutionalInvestors_try ::
  "('n::{zero,plus,minus,divide,ord}) js_number \<Rightarrow> 'n flow_row http \<Rightarrow> exn + 'n fund_flow" where
  "fetchInstitutionalInvestors_try env res =
     (case res of
        NetworkFailure \<Rightarrow> Inl FetchRejected
      | Response ok body \<Rightarrow>
          if \<not> ok then Inl NetworkError
          else
            (case body of
               Unparseable \<Rightarrow> Inl JsonRejected
             | Envelope None \<Rightarrow> Inr (FundFlowStatus (js ''nodata''))
             | Envelope (Some data) \<Rightarrow>
                 if length data > 0 then
                   (let lastDate = date (last data);
                        dailyData = filter (\<lambda>d. date d = lastDate) data;
                        totalNet = totalNet_of dailyData
                    in Inr (FundFlow (toFixed2 env (divide totalNet (lit_100000000 env))) lastDate
                              (if 0 \<le> totalNet then js ''Buy'' else js ''Sell'') (js ''success'')))
                 else Inr (FundFlowStatus (js ''nodata''))))"

definition fetchInstitutionalInvestors ::
  "('n::{zero,plus,minus,divide,ord}) js_number \<Rightarrow> 'n flow_row http \<Rightarrow> 'n fund_flow" where
  "fetchInstitutionalInvestors env res =
     (case fetchInstitutionalInvestors_try env res of
        Inr v \<Rightarrow> v
      | Inl error \<Rightarrow> FundFlowStatus (js ''error''))"

section \<open>fetchStockInstitutionalData\<close>

datatype 'n institutional_data =
    InstitutionalData (id_date: jsstring) (id_foreign: 'n) (id_trust: 'n) (id_dealer: 'n)
      (id_total: 'n) (id_status: jsstring)
  | InstitutionalStatus (id_status: jsstring)

text \<open>One round of the \<open>forEach\<close> loop over \<open>dailyData\<close>, on \<open>(foreign, trust, dealer)\<close>.\<close>

definition tally :: "('n::{plus,minus}) \<times> 'n \<times> 'n \<Rightarrow> 'n flow_row \<Rightarrow> 'n \<times> 'n \<times> 'n" where
  "tally acc item =
     (case acc of (foreign, trust, dealer) \<Rightarrow>
        let net = buy item - sell item in
        if name item = js ''Foreign_Investor'' then (foreign + net, trust, dealer)
        else if name item = js ''Investment_Trust'' then (foreign, trust + net, dealer)
        else if name item = js ''Dealer'' then (foreign, trust, dealer + net)
        else (foreign, trust, dealer))"

definition fetchStockInstitutionalData_try ::
  "jsstring \<Rightarrow> ('n::{zero,plus,minus}) flow_row http \<Rightarrow> exn + 'n institutional_data" where
  "fetchStockInstitutionalData_try stockId res =
     (case res of
        NetworkFailure \<Rightarrow> Inl FetchRejected
      | Response ok body \<Rightarrow>
          (case body of
              Unparseable \<Rightarrow> Inl JsonRejected
            | Envelope None \<Rightarrow> Inr (InstitutionalStatus (js ''nodata''))
            | Envelope (Some data) \<Rightarrow>
                if length data > 0 then
                  (let lastDate = date (last data);
                       dailyData = filter (\<lambda>d. date d = lastDate) data
                   in (case foldl tally (0, 0, 0) dailyData of (foreign, trust, dealer) \<Rightarrow>
                         Inr (InstitutionalData lastDate foreign trust dealer
                                (foreign + trust + dealer) (js ''success''))))
                else Inr (InstitutionalStatus (js ''nodata''))))"

definition fetchStockInstitutionalData ::
  "jsstring \<Rightarrow> ('n::{zero,plus,minus}) flow_row http \<Rightarrow> 'n institutional_data" where
  "fetchStockInstitutionalData stockId res =
     (case fetchStockInstitutionalData_try stockId res of
        Inr v \<Rightarrow> v
      | Inl error \<Rightarrow> InstitutionalStatus (js ''error''))"

text \<open>
  The sum of a list of numbers from the left, starting at 0; the net flow of a class of
  investors on a date, as the glossary has it: buy minus sell over the rows of that class
  and date.
\<close>

definition sum_left :: "('n::{zero,plus}) list \<Rightarrow> 'n" where
  "sum_left ns = foldl (+) 0 ns"

definition net_flow :: "jsstring \<Rightarrow> jsstring \<Rightarrow> ('n::{zero,plus,minus}) flow_row list \<Rightarrow> 'n" where
  "net_flow class day data =
     sum_left (map (\<lambda>d. buy d - sell d) (filter (\<lambda>d. date d = day \<and> name d = class) data))"

section \<open>fetchStockData\<close>

datatype 'n stock_info =
    is_StockInfo: StockInfo (si_id: jsstring) (si_name: jsstring) (si_price: 'n) (si_change: 'n) (si_pct: 'n)
      (si_volume: 'n) (si_per: "'n option") (si_pbr: "'n option")
      (si_history: "'n price_bar list") (si_lastUpdate: jsstring) (si_status': jsstring)
  | StockError (si_error': bool) (si_id: jsstring)

text \<open>The properties \<open>status\<close> and \<open>error\<close> of the returned object; absent is \<open>None\<close>.\<close>

fun si_status :: "'n stock_info \<Rightarrow> jsstring option" where
  "si_status (StockInfo i n p c pc v per pbr h u st) = Some st"
| "si_status (StockError e i) = None"

fun si_error :: "'n stock_info \<Rightarrow> bool option" where
  "si_error (StockInfo i n p c pc v per pbr h u st) = None"
| "si_error (StockError e i) = Some e"

definition fetchStockData_try ::
  "('n::{minus,times,divide}) js_number \<Rightarrow> 'n price_bar http \<Rightarrow> 'n per_row http \<Rightarrow>
     jsstring \<Rightarrow> jsstring \<Rightarrow> exn + 'n stock_info" where
  "fetchStockData_try env priceRes perRes stockName stockId =
     (case priceRes of
        NetworkFailure \<Rightarrow> Inl FetchRejected
      | Response ok Unparseable \<Rightarrow> Inl JsonRejected
      | Response ok (Envelope priceData) \<Rightarrow>
          (case priceData of
             None \<Rightarrow> Inr (StockError True stockId)
           | Some historyData \<Rightarrow>
               if length historyData = 0 then Inr (StockError True stockId)
               else
                 (case perRes of
                    NetworkFailure \<Rightarrow> Inl FetchRejected
                  | Response ok' Unparseable \<Rightarrow> Inl JsonRejected
                  | Response ok' (Envelope perData) \<Rightarrow>
                      (let latestPER =
                             (case perData of
                                Some rows \<Rightarrow> if length rows > 0 then Some (last rows) else None
                              | None \<Rightarrow> None);
                           latest = last historyData;
                           prev = previous historyData latest
                       in Inr (StockInfo stockId stockName (close latest)
                                 (toFixed2 env (close latest - close prev))
                                 (toFixed2 env
                                    (divide (close latest - close prev) (close prev) * lit_100 env))
                                 (Trading_Volume latest) (map_option PER latestPER)
                                 (map_option PBR latestPER) historyData (date latest)
                                 (js ''success''))))))"

text \<open>
  \<open>Promise.all\<close> starts the price request and \<open>fetchStockName\<close> together; the latter never
  rejects, and what it does to the cache happens whatever becomes of the price request.
\<close>

definition fetchStockData ::
  "('n::{minus,times,divide}) js_number \<Rightarrow> stock_entry http \<Rightarrow> 'n price_bar http \<Rightarrow>
     'n per_row http \<Rightarrow> jsstring \<Rightarrow> proc \<Rightarrow> 'n stock_info \<times> proc" where
  "fetchStockData env listRes priceRes perRes stockId s =
     (let (stockName, s') = fetchStockName listRes stockId s in
      (case fetchStockData_try env priceRes perRes stockName stockId of
         Inr v \<Rightarrow> v
       | Inl error \<Rightarrow> StockError True stockId, s'))"

section \<open>getGeminiAnalysis\<close>

text \<open>
  The request to the generative model is rejected with some error, or resolves with a
  response whose \<open>text\<close> may be undefined.  \<open>JSON.parse\<close> is a parameter: \<open>None\<close> where it
  throws a SyntaxError.  The prompt is built before the \<open>try\<close> block, from
  \<open>stockData.history\<close>: on the error object, which has no history, that throws a TypeError.
  The prompt itself and \<open>instData\<close>, of which only properties are read into it, are left
  out: no branch depends on them.  The \<open>catch\<close> block logs the error and throws it again.
\<close>

datatype gen_outcome = GenRejected exn | GenResponse "jsstring option"

definition text_or_default :: "jsstring option \<Rightarrow> jsstring" where
  "text_or_default text = (case text of None \<Rightarrow> js ''{}'' | Some t \<Rightarrow> if t = [] then js ''{}'' else t)"

definition getGeminiAnalysis_try :: "(jsstring \<Rightarrow> 'j option) \<Rightarrow> gen_outcome \<Rightarrow> exn + 'j" where
  "getGeminiAnalysis_try parse out =
     (case out of
        GenRejected e \<Rightarrow> Inl e
      | GenResponse text \<Rightarrow>
          (case parse (text_or_default text) of None \<Rightarrow> Inl SyntaxError | Some v \<Rightarrow> Inr v))"

definition getGeminiAnalysis ::
  "(jsstring \<Rightarrow> 'j option) \<Rightarrow> gen_outcome \<Rightarrow> 'n stock_info \<Rightarrow> exn + 'j" where
  "getGeminiAnalysis parse out stockData =
     (if \<not> is_StockInfo stockData then Inl TypeError
      else
        (case getGeminiAnalysis_try parse out of
           Inr v \<Rightarrow> Inr v
         | Inl error \<Rightarrow> Inl error))"

section \<open>Calls that do not overlap\<close>




section \<open>Sample data\<close>

definition honhai :: stock_entry where
  "honhai = \<lparr>stock_id = js ''2317'', stock_name = js ''HONHAI''\<rparr>"

definition tsmc :: stock_entry where
  "tsmc = \<lparr>stock_id = js ''2330'', stock_name = js ''TSMC''\<rparr>"

definition lev2x :: stock_entry where
  "lev2x = \<lparr>stock_id = js ''00631L'', stock_name = js ''LEV2X''\<rparr>"

definition unnamed :: stock_entry where
  "unnamed = \<lparr>stock_id = js ''2330'', stock_name = []\<rparr>"

text \<open>The state after one successful fetch of the list \<open>l\<close>.\<close>

definition cached :: "stock_entry list \<Rightarrow> proc" where
  "cached l = \<lparr>stockListCache = Some l, requests = 1, stores = 1\<rparr>"

section \<open>Calls that overlap\<close>



section \<open>Numbers as exact decimals\<close>

text \<open>
  An interpretation of the numbers: the reals, with exact arithmetic.  \<open>x.toFixed(f)\<close> is
  as ECMAScript defines it, on the exact value: for \<open>x < 0\<close> the sign is printed and \<open>-x\<close>
  is taken; then \<open>n\<close> is the integer for which \<open>n / 10^f - x\<close> is as close to zero as
  possible, the larger one if there are two; the digits of \<open>n\<close> are printed with the point
  before the last \<open>f\<close>.  (Numbers from \<open>10^21\<close> on, printed with an exponent, are left
  out.)  \<open>parseFloat\<close> of the two-digit form is the number it denotes.
\<close>

definition fixed_digits :: "nat \<Rightarrow> real \<Rightarrow> int" where
  "fixed_digits f x = \<lfloor>x * 10 ^ f + 1 / 2\<rfloor>"

fun decimal :: "nat \<Rightarrow> jsstring" where
  "decimal n =
     (if n < 10 then [word_of_nat (48 + n)]
      else decimal (n div 10) @ [word_of_nat (48 + n mod 10)])"

declare decimal.simps [simp del]

definition toFixed2_exact :: "real \<Rightarrow> real" where
  "toFixed2_exact x =
     (if x < 0 then - (of_int (fixed_digits 2 (- x)) / 100) else of_int (fixed_digits 2 x) / 100)"

definition toFixed0_exact :: "real \<Rightarrow> jsstring" where
  "toFixed0_exact x =
     (if x < 0 then js ''-'' @ decimal (nat (fixed_digits 0 (- x)))
      else decimal (nat (fixed_digits 0 x)))"

definition decimal_env :: "real js_number" where
  "decimal_env =
     \<lparr>toFixed2 = toFixed2_exact, toFixed0 = toFixed0_exact, lit_100 = 100,
      lit_100000000 = 100000000\<rparr>"

text \<open>Rows of institutional flow for the examples, two trading days.\<close>

definition flow :: "string \<Rightarrow> string \<Rightarrow> real \<Rightarrow> real \<Rightarrow> real flow_row" where
  "flow d c b s = \<lparr>date = js d, name = js c, buy = b, sell = s\<rparr>"

definition sample_flows :: "real flow_row list" where
  "sample_flows =
     [flow ''2024-01-02'' ''Foreign_Investor'' 10 3,
      flow ''2024-01-03'' ''Foreign_Investor'' 100 40,
      flow ''2024-01-03'' ''Investment_Trust'' 5 20,
      flow ''2024-01-03'' ''Dealer_self'' 700000000 100000000,
      flow ''2024-01-03'' ''Dealer'' 8 2,
      flow ''2024-01-03'' ''Foreign_Investor'' 1 0]"

text \<open>Daily bars for the examples.\<close>

definition bar :: "string \<Rightarrow> real \<Rightarrow> real price_bar" where
  "bar d c = \<lparr>date = js d, close = c, Trading_Volume = 2500000000\<rparr>"

definition sample_bar :: "real price_bar" where
  "sample_bar = bar ''2024-01-03'' 105"

definition sample_info :: "real stock_info" where
  "sample_info = StockInfo (js ''2330'') (js ''TSMC'') 105 5 5 2500000000 None None [sample_bar]
     (js ''2024-01-03'') (js ''success'')"

section \<open>Strings: basic facts\<close>

lemma js_includes_iff: "js_includes s sub \<longleftrightarrow> (\<exists>ps ss. s = ps @ sub @ ss)"
proof (induction s)
  case Nil
  then show ?case by auto
next
  case (Cons c cs)
  have "take (length sub) (c # cs) = sub \<longleftrightarrow> (\<exists>ss. c # cs = sub @ ss)"
    by (metis append_eq_conv_conj)
  moreover have "(\<exists>ps ss. c # cs = ps @ sub @ ss) \<longleftrightarrow>
      (\<exists>ss. c # cs = sub @ ss) \<or> (\<exists>ps ss. cs = ps @ sub @ ss)"
  proof
    assume "\<exists>ps ss. c # cs = ps @ sub @ ss"
    then obtain ps ss where e: "c # cs = ps @ sub @ ss" by blast
    show "(\<exists>ss. c # cs = sub @ ss) \<or> (\<exists>ps ss. cs = ps @ sub @ ss)"
    proof (cases ps)
      case Nil
      with e show ?thesis by auto
    next
      case (Cons p ps')
      with e have "cs = ps' @ sub @ ss" by simp
      then show ?thesis by blast
    qed
  next
    assume "(\<exists>ss. c # cs = sub @ ss) \<or> (\<exists>ps ss. cs = ps @ sub @ ss)"
    then show "\<exists>ps ss. c # cs = ps @ sub @ ss"
    proof
      assume "\<exists>ss. c # cs = sub @ ss"
      then obtain ss where "c # cs = [] @ sub @ ss" by auto
      then show ?thesis by blast
    next
      assume "\<exists>ps ss. cs = ps @ sub @ ss"
      then obtain ps ss where "c # cs = (c # ps) @ sub @ ss" by auto
      then show ?thesis by blast
    qed
  qed
  ultimately show ?case using Cons.IH by simp
qed

lemma digit_not_space: "isDigit c \<Longrightarrow> \<not> isWhiteSpace c"
  unfolding isDigit_def isWhiteSpace_def
  by (auto simp: word_le_nat_alt)

lemma trim_all_space: "list_all isWhiteSpace s \<Longrightarrow> trim s = []"
proof -
  assume "list_all isWhiteSpace s"
  then have e: "dropWhile isWhiteSpace s = []"
    by (simp add: list_all_iff)
  show ?thesis by (simp only: trim_def e rev.simps dropWhile.simps)
qed

lemma dropWhile_keeps: "m \<noteq> [] \<Longrightarrow> \<not> P (hd m) \<Longrightarrow> dropWhile P m = m"
  by (cases m) simp_all

lemma trim_core:
  assumes "list_all isWhiteSpace l" "list_all isWhiteSpace r"
    and "m \<noteq> []" "\<not> isWhiteSpace (hd m)" "\<not> isWhiteSpace (last m)"
  shows "trim (l @ m @ r) = m"
proof -
  have "dropWhile isWhiteSpace (m @ r) = m @ r"
    using assms(3,4) by (intro dropWhile_keeps) simp_all
  then have 1: "dropWhile isWhiteSpace (l @ m @ r) = m @ r"
    using assms(1) by (simp add: dropWhile_append list_all_iff)
  have "dropWhile isWhiteSpace (rev m) = rev m"
    using assms(3,5) by (intro dropWhile_keeps) (simp_all add: hd_rev)
  then have 2: "dropWhile isWhiteSpace (rev (m @ r)) = rev m"
    using assms(2) by (simp add: dropWhile_append list_all_iff)
  show ?thesis unfolding trim_def 1 2 by simp
qed

section \<open>Identifier resolution\<close>

text \<open>
  C8.  A query that is empty or consists of whitespace only resolves to null, and a query
  of digits surrounded by whitespace resolves to the digits without the whitespace; in both
  cases the stock list is not consulted: the result does not depend on the cache or on the
  network, no request is issued and the state is unchanged.
\<close>

theorem resolveStockId_blank_or_padded_digits:
  "(list_all isWhiteSpace query \<longrightarrow> resolveStockId r query s = (None, s)) \<and>
   (list_all isWhiteSpace l \<and> allDigits ds \<and> list_all isWhiteSpace t \<longrightarrow>
      resolveStockId r (l @ ds @ t) s = (Some ds, s))"
proof (intro conjI impI)
  assume "list_all isWhiteSpace query"
  then show "resolveStockId r query s = (None, s)"
    by (simp add: resolveStockId_def trim_all_space)
next
  assume a: "list_all isWhiteSpace l \<and> allDigits ds \<and> list_all isWhiteSpace t"
  then have ne: "ds \<noteq> []" and dig: "list_all isDigit ds"
    by (simp_all add: allDigits_def)
  have "isDigit (hd ds)" "isDigit (last ds)"
    using ne dig by (simp_all add: list_all_iff)
  then have "\<not> isWhiteSpace (hd ds)" "\<not> isWhiteSpace (last ds)"
    by (simp_all add: digit_not_space)
  with a ne have "trim (l @ ds @ t) = ds"
    by (intro trim_core) simp_all
  with a ne show "resolveStockId r (l @ ds @ t) s = (Some ds, s)"
    by (simp add: resolveStockId_def)
qed

theorem resolveStockId_blank_or_padded_digits_witness:
  "list_all isWhiteSpace (js ''  '') \<and>
   resolveStockId NetworkFailure (js ''  '') initial = (None, initial) \<and>
   list_all isWhiteSpace (js '' '') \<and> allDigits (js ''2330'') \<and>
   list_all isWhiteSpace (js ''  '') \<and>
   resolveStockId NetworkFailure (js '' '' @ js ''2330'' @ js ''  '') initial
     = (Some (js ''2330''), initial)"
  using resolveStockId_blank_or_padded_digits
    [of "js ''  ''" NetworkFailure initial "js '' ''" "js ''2330''" "js ''  ''"]
  by (simp add: js_def isWhiteSpace_def allDigits_def isDigit_def)

section \<open>The stock list: basic facts\<close>

lemma find_first:
  "\<forall>x\<in>set pre. \<not> P x \<Longrightarrow> P e \<Longrightarrow> find P (pre @ e # post) = Some e"
  by (induction pre) simp_all

lemma find_none: "\<forall>x\<in>set xs. \<not> P x \<Longrightarrow> find P xs = None"
  by (simp add: find_None_iff)

lemma getStockList_hit: "stockListCache s = Some l \<Longrightarrow> getStockList r s = (l, s)"
  by (simp add: getStockList_def getStockList_begin_def)

lemma getStockList_miss:
  "stockListCache s = None \<Longrightarrow>
   getStockList r s = getStockList_resume r (s\<lparr>requests := requests s + 1\<rparr>)"
  by (simp add: getStockList_def getStockList_begin_def)

lemma getStockList_unfetched:
  "stockListCache s = None \<Longrightarrow> \<forall>ok d. r \<noteq> Response ok (Envelope (Some d)) \<Longrightarrow>
   fst (getStockList r s) = []"
  by (simp add: getStockList_miss getStockList_resume_def
      split: http.splits http_body.splits option.splits)

lemma getStockList_cached [simp]: "getStockList r (cached l) = (l, cached l)"
  by (simp add: getStockList_hit cached_def)

lemma resolveStockId_result:
  "fst (resolveStockId r query s) =
     (if trim query = [] then None
      else if allDigits (trim query) then Some (trim query)
      else case find (\<lambda>e. stock_name e = trim query \<or> stock_id e = trim query)
                  (fst (getStockList r s)) of
          Some m \<Rightarrow> Some (stock_id m)
        | None \<Rightarrow>
            (case find (\<lambda>e. js_includes (stock_name e) (trim query)) (fst (getStockList r s)) of
               Some f \<Rightarrow> Some (stock_id f)
             | None \<Rightarrow> None))"
  by (cases "getStockList r s") (simp add: resolveStockId_def Let_def split: option.splits)

lemma fetchStockName_result:
  "fst (fetchStockName r stockId s) =
     (case find (\<lambda>e. stock_id e = stockId) (fst (getStockList r s)) of
        Some m \<Rightarrow> stock_name m
      | None \<Rightarrow> stockId)"
  by (cases "getStockList r s") (simp add: fetchStockName_def split: option.splits)

lemmas string_defs = js_def trim_def isWhiteSpace_def allDigits_def isDigit_def

lemmas sample_defs = honhai_def tsmc_def lev2x_def unnamed_def

section \<open>The order of resolution\<close>

text \<open>
  C1, as the specification words it, fails on the code in three ways.  The exact match
  is on the name or on the identifier, so that an identifier that is not all digits
  resolves to itself although no name equals or contains it.  A query of digits is
  returned trimmed, not unchanged.  An empty query resolves to null although every name
  contains the empty string.
\<close>

theorem resolveStockId_spec_counterexample:
  "fst (resolveStockId NetworkFailure (js ''00631L'') (cached [lev2x])) = Some (js ''00631L'') \<and>
   spec_resolveStockId [lev2x] (js ''00631L'') = None \<and>
   fst (resolveStockId NetworkFailure (js '' 2330 '') (cached [])) = Some (js ''2330'') \<and>
   spec_resolveStockId [] (js '' 2330 '') = Some (js '' 2330 '') \<and>
   fst (resolveStockId NetworkFailure (js '''') (cached [tsmc])) = None \<and>
   spec_resolveStockId [tsmc] (js '''') = Some (js ''2330'')"
  by (simp add: resolveStockId_result spec_resolveStockId_def string_defs sample_defs)

text \<open>
  C1, amended.  With \<open>t\<close> the trimmed query and the list that \<open>getStockList\<close> returns:
  an empty \<open>t\<close> resolves to null; a \<open>t\<close> of digits only resolves to \<open>t\<close>; otherwise the
  result is the identifier of the first entry whose name or identifier equals \<open>t\<close>;
  failing that, the identifier of the first entry whose name contains \<open>t\<close>; failing that,
  null.
\<close>

theorem resolveStockId_order:
  fixes r query s
  defines "t \<equiv> trim query"
    and "list \<equiv> fst (getStockList r s)"
    and "result \<equiv> fst (resolveStockId r query s)"
  shows
  "(t = [] \<longrightarrow> result = None) \<and>
   (allDigits t \<longrightarrow> result = Some t) \<and>
   (t \<noteq> [] \<and> \<not> allDigits t \<and> list = pre @ e # post \<and>
      (stock_name e = t \<or> stock_id e = t) \<and>
      (\<forall>x\<in>set pre. stock_name x \<noteq> t \<and> stock_id x \<noteq> t)
      \<longrightarrow> result = Some (stock_id e)) \<and>
   (t \<noteq> [] \<and> \<not> allDigits t \<and>
      (\<forall>x\<in>set list. stock_name x \<noteq> t \<and> stock_id x \<noteq> t) \<and>
      list = pre' @ e' # post' \<and> (\<exists>ps ss. stock_name e' = ps @ t @ ss) \<and>
      (\<forall>x\<in>set pre'. \<not> (\<exists>ps ss. stock_name x = ps @ t @ ss))
      \<longrightarrow> result = Some (stock_id e')) \<and>
   (t \<noteq> [] \<and> \<not> allDigits t \<and>
      (\<forall>x\<in>set list. stock_id x \<noteq> t \<and> \<not> (\<exists>ps ss. stock_name x = ps @ t @ ss))
      \<longrightarrow> result = None)"
proof (intro conjI impI)
  show "result = None" if "t = []"
    using that by (simp add: result_def t_def resolveStockId_result)
  show "result = Some t" if "allDigits t"
    using that by (auto simp: result_def t_def resolveStockId_result allDigits_def)
next
  let ?ex = "\<lambda>e. stock_name e = t \<or> stock_id e = t"
  assume a: "t \<noteq> [] \<and> \<not> allDigits t \<and> list = pre @ e # post \<and>
      (stock_name e = t \<or> stock_id e = t) \<and>
      (\<forall>x\<in>set pre. stock_name x \<noteq> t \<and> stock_id x \<noteq> t)"
  then have "find ?ex list = Some e"
    by (simp add: find_first)
  with a show "result = Some (stock_id e)"
    by (simp add: result_def resolveStockId_result t_def [symmetric] list_def [symmetric])
next
  let ?ex = "\<lambda>e. stock_name e = t \<or> stock_id e = t"
  let ?inc = "\<lambda>e. js_includes (stock_name e) t"
  assume a: "t \<noteq> [] \<and> \<not> allDigits t \<and>
      (\<forall>x\<in>set list. stock_name x \<noteq> t \<and> stock_id x \<noteq> t) \<and>
      list = pre' @ e' # post' \<and> (\<exists>ps ss. stock_name e' = ps @ t @ ss) \<and>
      (\<forall>x\<in>set pre'. \<not> (\<exists>ps ss. stock_name x = ps @ t @ ss))"
  then have "find ?ex list = None"
    by (intro find_none) simp
  moreover from a have "?inc e'" "\<forall>x\<in>set pre'. \<not> ?inc x" "list = pre' @ e' # post'"
    by (simp_all add: js_includes_iff)
  then have "find ?inc list = Some e'"
    by (simp add: find_first)
  ultimately show "result = Some (stock_id e')"
    using a by (simp add: result_def resolveStockId_result t_def [symmetric] list_def [symmetric])
next
  let ?ex = "\<lambda>e. stock_name e = t \<or> stock_id e = t"
  let ?inc = "\<lambda>e. js_includes (stock_name e) t"
  assume a: "t \<noteq> [] \<and> \<not> allDigits t \<and>
      (\<forall>x\<in>set list. stock_id x \<noteq> t \<and> \<not> (\<exists>ps ss. stock_name x = ps @ t @ ss))"
  have self: "\<exists>ps ss. n = ps @ n @ ss" for n :: jsstring
    by (metis append_Nil append_Nil2)
  from a have "\<forall>x\<in>set list. \<not> ?inc x"
    by (simp add: js_includes_iff)
  then have 2: "find ?inc list = None"
    by (intro find_none)
  from a self have "\<forall>x\<in>set list. \<not> ?ex x"
    by metis
  then have "find ?ex list = None"
    by (intro find_none)
  with 2 a show "result = None"
    by (simp add: result_def resolveStockId_result t_def [symmetric] list_def [symmetric])
qed

theorem resolveStockId_order_witness:
  "fst (resolveStockId NetworkFailure (js ''  '') (cached [honhai, tsmc, lev2x])) = None \<and>
   fst (resolveStockId NetworkFailure (js '' 2330 '') (cached [honhai, tsmc, lev2x]))
     = Some (js ''2330'') \<and>
   fst (resolveStockId NetworkFailure (js '' TSMC'') (cached [honhai, tsmc, lev2x]))
     = Some (js ''2330'') \<and>
   fst (resolveStockId NetworkFailure (js ''SM'') (cached [honhai, tsmc, lev2x]))
     = Some (js ''2330'') \<and>
   fst (resolveStockId NetworkFailure (js ''XYZ'') (cached [honhai, tsmc, lev2x])) = None"
proof (intro conjI)
  let ?s = "cached [honhai, tsmc, lev2x]"
  show "fst (resolveStockId NetworkFailure (js ''  '') ?s) = None"
    using resolveStockId_order [of "js ''  ''" NetworkFailure ?s]
    by (simp add: string_defs)
  show "fst (resolveStockId NetworkFailure (js '' 2330 '') ?s) = Some (js ''2330'')"
    using resolveStockId_order [of "js '' 2330 ''" NetworkFailure ?s]
    by (simp add: string_defs)
  show "fst (resolveStockId NetworkFailure (js '' TSMC'') ?s) = Some (js ''2330'')"
    using resolveStockId_order [of "js '' TSMC''" NetworkFailure ?s "[honhai]" tsmc "[lev2x]"]
    by (simp add: string_defs sample_defs)
  show "fst (resolveStockId NetworkFailure (js ''SM'') ?s) = Some (js ''2330'')"
    using resolveStockId_order
      [of "js ''SM''" NetworkFailure ?s _ _ _ "[honhai]" tsmc "[lev2x]"]
    unfolding js_includes_iff [symmetric]
    by (simp add: string_defs sample_defs)
  show "fst (resolveStockId NetworkFailure (js ''XYZ'') ?s) = None"
    using resolveStockId_order [of "js ''XYZ''" NetworkFailure ?s]
    unfolding js_includes_iff [symmetric]
    by (simp add: string_defs sample_defs)
qed

section \<open>The name of a stock\<close>

text \<open>
  C9, as stated, fails where the first entry with the identifier has an empty name:
  \<open>match ? match.stock_name : stockId\<close> tests the entry, not its name.
\<close>

theorem fetchStockName_empty_counterexample:
  "js ''2330'' \<noteq> [] \<and> fst (fetchStockName NetworkFailure (js ''2330'') (cached [unnamed])) = []"
  by (simp add: fetchStockName_result js_def sample_defs)

text \<open>
  C9, amended.  \<open>fetchStockName\<close> returns the name of the first entry of the list with
  that identifier, and the identifier itself when the list has no such entry or could not
  be fetched; the result for a non-empty identifier is non-empty provided that no entry
  of the list has an empty name.
\<close>

theorem fetchStockName_name_or_id:
  "(fst (getStockList r s) = pre @ e # post \<and> stock_id e = stockId \<and>
      (\<forall>x\<in>set pre. stock_id x \<noteq> stockId)
      \<longrightarrow> fst (fetchStockName r stockId s) = stock_name e) \<and>
   ((\<forall>x\<in>set (fst (getStockList r s)). stock_id x \<noteq> stockId)
      \<longrightarrow> fst (fetchStockName r stockId s) = stockId) \<and>
   (stockListCache s = None \<and> (\<forall>ok d. r \<noteq> Response ok (Envelope (Some d)))
      \<longrightarrow> fst (fetchStockName r stockId s) = stockId) \<and>
   (stockId \<noteq> [] \<and> (\<forall>x\<in>set (fst (getStockList r s)). stock_name x \<noteq> [])
      \<longrightarrow> fst (fetchStockName r stockId s) \<noteq> [])"
proof (intro conjI impI)
  assume "fst (getStockList r s) = pre @ e # post \<and> stock_id e = stockId \<and>
      (\<forall>x\<in>set pre. stock_id x \<noteq> stockId)"
  then have "find (\<lambda>e. stock_id e = stockId) (fst (getStockList r s)) = Some e"
    by (simp add: find_first)
  then show "fst (fetchStockName r stockId s) = stock_name e"
    by (simp add: fetchStockName_result)
next
  assume "\<forall>x\<in>set (fst (getStockList r s)). stock_id x \<noteq> stockId"
  then have "find (\<lambda>e. stock_id e = stockId) (fst (getStockList r s)) = None"
    by (intro find_none)
  then show "fst (fetchStockName r stockId s) = stockId"
    by (simp add: fetchStockName_result)
next
  assume "stockListCache s = None \<and> (\<forall>ok d. r \<noteq> Response ok (Envelope (Some d)))"
  then have "fst (getStockList r s) = []"
    by (simp add: getStockList_unfetched)
  then show "fst (fetchStockName r stockId s) = stockId"
    by (simp add: fetchStockName_result)
next
  assume a: "stockId \<noteq> [] \<and> (\<forall>x\<in>set (fst (getStockList r s)). stock_name x \<noteq> [])"
  show "fst (fetchStockName r stockId s) \<noteq> []"
  proof (cases "find (\<lambda>e. stock_id e = stockId) (fst (getStockList r s))")
    case None
    with a show ?thesis by (simp add: fetchStockName_result)
  next
    case (Some m)
    then have "m \<in> set (fst (getStockList r s))"
      by (auto simp: find_Some_iff)
    with a Some show ?thesis by (simp add: fetchStockName_result)
  qed
qed

theorem fetchStockName_name_or_id_witness:
  "fst (fetchStockName NetworkFailure (js ''2330'') (cached [honhai, tsmc, unnamed])) = js ''TSMC'' \<and>
   fst (fetchStockName NetworkFailure (js ''0050'') (cached [honhai])) = js ''0050'' \<and>
   fst (fetchStockName NetworkFailure (js ''2330'') initial) = js ''2330'' \<and>
   fst (fetchStockName (Response True (Envelope (Some [tsmc]))) (js ''2330'') initial) \<noteq> []"
proof (intro conjI)
  show "fst (fetchStockName NetworkFailure (js ''2330'') (cached [honhai, tsmc, unnamed])) = js ''TSMC''"
    using fetchStockName_name_or_id
      [of NetworkFailure "cached [honhai, tsmc, unnamed]" "[honhai]" tsmc "[unnamed]" "js ''2330''"]
    by (simp add: js_def sample_defs)
  show "fst (fetchStockName NetworkFailure (js ''0050'') (cached [honhai])) = js ''0050''"
    using fetchStockName_name_or_id [of NetworkFailure "cached [honhai]" _ _ _ "js ''0050''"]
    by (simp add: js_def sample_defs)
  show "fst (fetchStockName NetworkFailure (js ''2330'') initial) = js ''2330''"
    using fetchStockName_name_or_id [of NetworkFailure initial _ _ _ "js ''2330''"]
    by (simp add: initial_def)
  show "fst (fetchStockName (Response True (Envelope (Some [tsmc]))) (js ''2330'') initial) \<noteq> []"
    using fetchStockName_name_or_id
      [of "Response True (Envelope (Some [tsmc]))" initial _ _ _ "js ''2330''"]
    by (simp add: initial_def getStockList_miss getStockList_resume_def js_def sample_defs)
qed

section \<open>The cache of the stock list\<close>
















section \<open>The fetch operations: basic facts\<close>

lemmas fetch_defs =
  fetchMarketIndex_def fetchMarketIndex_try_def
  fetchInstitutionalInvestors_def fetchInstitutionalInvestors_try_def
  fetchStockInstitutionalData_def fetchStockInstitutionalData_try_def

lemma fetchStockData_result:
  "fst (fetchStockData env listRes priceRes perRes stockId s) =
     (case fetchStockData_try env priceRes perRes (fst (fetchStockName listRes stockId s)) stockId of
        Inr v \<Rightarrow> v
      | Inl error \<Rightarrow> StockError True stockId)"
  by (simp add: fetchStockData_def split: prod.splits)

lemma previous_single: "previous [x] x = x"
  by (simp add: previous_def js_at_def)


lemma status_names_distinct: "js ''nodata'' \<noteq> js ''error''" "js ''success'' \<noteq> js ''error''"
  by (simp_all add: js_def)

lemmas decimal_defs = decimal_env_def toFixed2_exact_def toFixed0_exact_def fixed_digits_def




section \<open>Institutional flow\<close>

lemma class_names_distinct:
  "js ''Foreign_Investor'' \<noteq> js ''Investment_Trust''"
  "js ''Foreign_Investor'' \<noteq> js ''Dealer''"
  "js ''Investment_Trust'' \<noteq> js ''Dealer''"
  by (simp_all add: js_def)

lemma tally_step:
  "tally (f, t, d) x =
     (if name x = js ''Foreign_Investor'' then (f + (buy x - sell x), t, d)
      else if name x = js ''Investment_Trust'' then (f, t + (buy x - sell x), d)
      else if name x = js ''Dealer'' then (f, t, d + (buy x - sell x))
      else (f, t, d))"
  by (simp add: tally_def Let_def)

lemma foldl_tally:
  "foldl tally (f, t, d) xs =
     (foldl (+) f (map (\<lambda>d. buy d - sell d) (filter (\<lambda>d. name d = js ''Foreign_Investor'') xs)),
      foldl (+) t (map (\<lambda>d. buy d - sell d) (filter (\<lambda>d. name d = js ''Investment_Trust'') xs)),
      foldl (+) d (map (\<lambda>d. buy d - sell d) (filter (\<lambda>d. name d = js ''Dealer'') xs)))"
proof (induction xs arbitrary: f t d)
  case Nil
  show ?case by simp
next
  case (Cons x xs)
  show ?case
    using class_names_distinct by (simp add: tally_step Cons.IH)
qed

lemma net_flow_filter:
  "net_flow class day data =
     foldl (+) 0 (map (\<lambda>d. buy d - sell d)
       (filter (\<lambda>d. name d = class) (filter (\<lambda>d. date d = day) data)))"
  by (simp add: net_flow_def sum_left_def)

lemma last_greatest:
  assumes "sorted_wrt (\<lambda>a b. f a \<le> f b) xs" "xs \<noteq> []" "x \<in> set xs"
  shows "(f x :: 'b :: preorder) \<le> f (last xs)"
proof -
  have xs: "xs = butlast xs @ [last xs]"
    using assms(2) by simp
  then have "sorted_wrt (\<lambda>a b. f a \<le> f b) (butlast xs @ [last xs])"
    using assms(1) by simp
  then have "\<forall>y\<in>set (butlast xs). f y \<le> f (last xs)"
    by (simp add: sorted_wrt_append)
  moreover have "x \<in> set (butlast xs) \<or> x = last xs"
    using assms(3) xs by (metis Un_iff insert_iff list.set(2) set_append empty_iff list.set(1))
  ultimately show ?thesis by auto
qed

lemma tally_other:
  "name x \<noteq> js ''Foreign_Investor'' \<Longrightarrow> name x \<noteq> js ''Investment_Trust'' \<Longrightarrow>
   name x \<noteq> js ''Dealer'' \<Longrightarrow> tally acc x = acc"
  by (cases acc) (simp add: tally_step)

lemma totalNet_of_sum: "totalNet_of rows = sum_left (map (\<lambda>d. buy d - sell d) rows)"
  by (simp add: totalNet_of_def sum_left_def foldl_map)

lemma totalNet_of_rename: "totalNet_of (map (\<lambda>d. d\<lparr>name := rename d\<rparr>) rows) = totalNet_of rows"
  by (simp add: totalNet_of_sum comp_def)

lemma filter_date_rename:
  "filter (\<lambda>d. date d = day) (map (\<lambda>d. d\<lparr>name := rename d\<rparr>) rows) =
   map (\<lambda>d. d\<lparr>name := rename d\<rparr>) (filter (\<lambda>d. date d = day) rows)"
  by (simp add: filter_map comp_def)

lemma stock_flow_drop_other:
  assumes "name x \<noteq> js ''Foreign_Investor''" "name x \<noteq> js ''Investment_Trust''"
    "name x \<noteq> js ''Dealer''" "ys \<noteq> []"
  shows "fetchStockInstitutionalData stockId (Response ok (Envelope (Some (xs @ x # ys)))) =
         fetchStockInstitutionalData stockId (Response ok (Envelope (Some (xs @ ys))))"
proof -
  have l: "last (xs @ x # ys) = last ys" "last (xs @ ys) = last ys"
    using assms(4) by simp_all
  have "foldl tally acc (filter (\<lambda>d. date d = day) (xs @ x # ys)) =
        foldl tally acc (filter (\<lambda>d. date d = day) (xs @ ys))" for acc day
    using assms(1-3) by (simp add: tally_other)
  then show ?thesis
    using assms(4)
    by (simp only: fetchStockInstitutionalData_def fetchStockInstitutionalData_try_def l Let_def)
       simp
qed

text \<open>
  C3.  For a non-empty series, \<open>fetchStockInstitutionalData\<close> returns the date of the last
  row, the net flows (buy minus sell, summed from the left) of the classes
  \<open>Foreign_Investor\<close>, \<open>Investment_Trust\<close> and \<open>Dealer\<close> over the rows of that date, and as
  total exactly foreign + trust + dealer.  The date of the last row is the most recent date
  of a series that is ordered by date (ISO dates, ordered as strings).
\<close>

theorem institutional_total:
  fixes data :: "('n::{zero,plus,minus}) flow_row list"
  defines "day \<equiv> date (last data)"
  shows
  "data \<noteq> [] \<longrightarrow>
     fetchStockInstitutionalData stockId (Response ok (Envelope (Some data))) =
       InstitutionalData day
         (net_flow (js ''Foreign_Investor'') day data)
         (net_flow (js ''Investment_Trust'') day data)
         (net_flow (js ''Dealer'') day data)
         (net_flow (js ''Foreign_Investor'') day data + net_flow (js ''Investment_Trust'') day data
            + net_flow (js ''Dealer'') day data)
         (js ''success'') \<and>
     (sorted_wrt (\<lambda>a b. date a \<le> date b) data \<longrightarrow> (\<forall>d\<in>set data. date d \<le> day))"
proof (intro impI conjI)
  assume ne: "data \<noteq> []"
  show "fetchStockInstitutionalData stockId (Response ok (Envelope (Some data))) =
       InstitutionalData day
         (net_flow (js ''Foreign_Investor'') day data)
         (net_flow (js ''Investment_Trust'') day data)
         (net_flow (js ''Dealer'') day data)
         (net_flow (js ''Foreign_Investor'') day data + net_flow (js ''Investment_Trust'') day data
            + net_flow (js ''Dealer'') day data)
         (js ''success'')"
    using ne
    by (simp add: fetchStockInstitutionalData_def fetchStockInstitutionalData_try_def
        foldl_tally net_flow_filter day_def Let_def)
  show "\<forall>d\<in>set data. date d \<le> day" if "sorted_wrt (\<lambda>a b. date a \<le> date b) data"
    using that ne unfolding day_def by (auto intro: last_greatest)
qed

theorem institutional_total_witness:
  "sample_flows \<noteq> [] \<and> sorted_wrt (\<lambda>a b. date a \<le> date b) sample_flows \<and>
   fetchStockInstitutionalData (js ''2330'') (Response True (Envelope (Some sample_flows))) =
     InstitutionalData (js ''2024-01-03'') 61 (- 15) 6 52 (js ''success'') \<and>
   list_all (\<lambda>d. date d \<le> js ''2024-01-03'') sample_flows"
proof -
  have 1: "sample_flows \<noteq> []"
    by (simp add: sample_flows_def)
  have 2: "sorted_wrt (\<lambda>a b. date a \<le> date b) sample_flows"
    by (simp add: sample_flows_def flow_def js_def)
  have 3: "date (last sample_flows) = js ''2024-01-03''"
    by (simp add: sample_flows_def flow_def)
  have 4: "net_flow (js ''Foreign_Investor'') (js ''2024-01-03'') sample_flows = 61"
    "net_flow (js ''Investment_Trust'') (js ''2024-01-03'') sample_flows = - 15"
    "net_flow (js ''Dealer'') (js ''2024-01-03'') sample_flows = 6"
    by (simp_all add: net_flow_def sum_left_def sample_flows_def flow_def js_def)
  show ?thesis
    using institutional_total [of sample_flows "js ''2330''" True] 1 2
    by (simp add: 3 4 list_all_iff)
qed

lemma fetchInstitutionalInvestors_sum:
  fixes rows :: "('m::{zero,plus,minus,divide,ord}) flow_row list"
  shows
  "rows \<noteq> [] \<Longrightarrow>
   fetchInstitutionalInvestors env (Response True (Envelope (Some rows))) =
     FundFlow
       (toFixed2 env
          (divide (sum_left (map (\<lambda>d. buy d - sell d) (filter (\<lambda>d. date d = date (last rows)) rows)))
             (lit_100000000 env)))
       (date (last rows))
       (if 0 \<le> sum_left (map (\<lambda>d. buy d - sell d) (filter (\<lambda>d. date d = date (last rows)) rows))
        then js ''Buy'' else js ''Sell'')
       (js ''success'')"
  by (simp add: fetchInstitutionalInvestors_def fetchInstitutionalInvestors_try_def
      totalNet_of_sum Let_def)

text \<open>
  C10.  In \<open>fetchStockInstitutionalData\<close> a row whose class is none of the three leaves the
  three sums as they are, and the result is the same without the row (which is not the last
  one, from which the date is taken).  \<open>fetchInstitutionalInvestors\<close> returns, for a
  non-empty series, the sum of buy minus sell over every row of the date of the last row,
  scaled and rounded, with \<open>Buy\<close> or \<open>Sell\<close> by its sign; renaming the classes of the rows
  at will does not change its result.  On the sample rows, where one row of the last day
  has the class \<open>Dealer_self\<close>, the first total (52) leaves that row out and the second
  (a net of 600000052, reported as 6.00 hundred millions) has it in.
\<close>

theorem aggregations_differ:
  fixes x :: "('n::{zero,plus,minus}) flow_row"
    and rows :: "('m::{zero,plus,minus,divide,ord}) flow_row list"
  shows
  "(name x \<noteq> js ''Foreign_Investor'' \<and> name x \<noteq> js ''Investment_Trust'' \<and>
    name x \<noteq> js ''Dealer'' \<longrightarrow>
      tally acc x = acc \<and>
      (ys \<noteq> [] \<longrightarrow>
         fetchStockInstitutionalData stockId (Response ok (Envelope (Some (xs @ x # ys)))) =
         fetchStockInstitutionalData stockId (Response ok (Envelope (Some (xs @ ys)))))) \<and>
   (rows \<noteq> [] \<longrightarrow>
      fetchInstitutionalInvestors env (Response True (Envelope (Some rows))) =
        FundFlow
          (toFixed2 env
             (divide (sum_left (map (\<lambda>d. buy d - sell d)
                                  (filter (\<lambda>d. date d = date (last rows)) rows)))
                (lit_100000000 env)))
          (date (last rows))
          (if 0 \<le> sum_left (map (\<lambda>d. buy d - sell d)
                               (filter (\<lambda>d. date d = date (last rows)) rows))
           then js ''Buy'' else js ''Sell'')
          (js ''success'')) \<and>
   fetchInstitutionalInvestors env (Response ok' (Envelope (Some (map (\<lambda>d. d\<lparr>name := rename d\<rparr>) rows)))) =
     fetchInstitutionalInvestors env (Response ok' (Envelope (Some rows))) \<and>
   fetchStockInstitutionalData (js ''2330'') (Response True (Envelope (Some sample_flows)))
     = InstitutionalData (js ''2024-01-03'') 61 (- 15) 6 52 (js ''success'') \<and>
   sum_left (map (\<lambda>d. buy d - sell d) (filter (\<lambda>d. date d = js ''2024-01-03'') sample_flows))
     = 600000052 \<and>
   fetchInstitutionalInvestors decimal_env (Response True (Envelope (Some sample_flows)))
     = FundFlow 6 (js ''2024-01-03'') (js ''Buy'') (js ''success'')"
proof (intro conjI impI)
  assume o: "name x \<noteq> js ''Foreign_Investor'' \<and> name x \<noteq> js ''Investment_Trust'' \<and>
    name x \<noteq> js ''Dealer''"
  then show "tally acc x = acc"
    by (simp add: tally_other)
  show "fetchStockInstitutionalData stockId (Response ok (Envelope (Some (xs @ x # ys)))) =
         fetchStockInstitutionalData stockId (Response ok (Envelope (Some (xs @ ys))))"
    if "ys \<noteq> []"
    using o that by (intro stock_flow_drop_other) simp_all
next
  assume "rows \<noteq> []"
  then show "fetchInstitutionalInvestors env (Response True (Envelope (Some rows))) =
        FundFlow
          (toFixed2 env
             (divide (sum_left (map (\<lambda>d. buy d - sell d)
                                  (filter (\<lambda>d. date d = date (last rows)) rows)))
                (lit_100000000 env)))
          (date (last rows))
          (if 0 \<le> sum_left (map (\<lambda>d. buy d - sell d)
                               (filter (\<lambda>d. date d = date (last rows)) rows))
           then js ''Buy'' else js ''Sell'')
          (js ''success'')"
    by (rule fetchInstitutionalInvestors_sum)
next
  show "fetchInstitutionalInvestors env (Response ok' (Envelope (Some (map (\<lambda>d. d\<lparr>name := rename d\<rparr>) rows)))) =
     fetchInstitutionalInvestors env (Response ok' (Envelope (Some rows)))"
  proof (cases "rows = []")
    case True
    then show ?thesis by simp
  next
    case False
    then have "date (last (map (\<lambda>d. d\<lparr>name := rename d\<rparr>) rows)) = date (last rows)"
      by (simp add: last_map)
    with False show ?thesis
      by (simp add: fetchInstitutionalInvestors_def fetchInstitutionalInvestors_try_def
          filter_date_rename totalNet_of_rename Let_def)
  qed
next
  show "fetchStockInstitutionalData (js ''2330'') (Response True (Envelope (Some sample_flows)))
      = InstitutionalData (js ''2024-01-03'') 61 (- 15) 6 52 (js ''success'')"
    by (simp add: fetchStockInstitutionalData_def fetchStockInstitutionalData_try_def
        sample_flows_def flow_def tally_step js_def)
  have l: "date (last sample_flows) = js ''2024-01-03''" "sample_flows \<noteq> []"
    by (simp_all add: sample_flows_def flow_def)
  show t: "sum_left (map (\<lambda>d. buy d - sell d)
      (filter (\<lambda>d. date d = js ''2024-01-03'') sample_flows)) = 600000052"
    by (simp add: sum_left_def sample_flows_def flow_def js_def)
  show "fetchInstitutionalInvestors decimal_env (Response True (Envelope (Some sample_flows)))
     = FundFlow 6 (js ''2024-01-03'') (js ''Buy'') (js ''success'')"
    by (simp add: fetchInstitutionalInvestors_sum l t) (simp add: decimal_defs)
qed

theorem aggregations_differ_witness:
  "name (flow ''2024-01-03'' ''Dealer_self'' 700000000 100000000) \<noteq> js ''Foreign_Investor'' \<and>
   tally (1, 2, 3) (flow ''2024-01-03'' ''Dealer_self'' 700000000 100000000) = (1, 2, 3) \<and>
   fetchStockInstitutionalData (js ''2330'') (Response True (Envelope (Some
       ([flow ''2024-01-03'' ''Foreign_Investor'' 100 40]
        @ flow ''2024-01-03'' ''Dealer_self'' 700000000 100000000
        # [flow ''2024-01-03'' ''Dealer'' 8 2])))) =
   fetchStockInstitutionalData (js ''2330'') (Response True (Envelope (Some
       ([flow ''2024-01-03'' ''Foreign_Investor'' 100 40]
        @ [flow ''2024-01-03'' ''Dealer'' 8 2])))) \<and>
   sample_flows \<noteq> [] \<and>
   ff_total (fetchInstitutionalInvestors decimal_env (Response True (Envelope (Some sample_flows))))
     = toFixed2 decimal_env
         (sum_left (map (\<lambda>d. buy d - sell d)
            (filter (\<lambda>d. date d = date (last sample_flows)) sample_flows)) / 100000000)"
proof -
  have n: "name (flow ''2024-01-03'' ''Dealer_self'' 700000000 100000000) \<noteq> js ''Foreign_Investor''"
    "name (flow ''2024-01-03'' ''Dealer_self'' 700000000 100000000) \<noteq> js ''Investment_Trust''"
    "name (flow ''2024-01-03'' ''Dealer_self'' 700000000 100000000) \<noteq> js ''Dealer''"
    by (simp_all add: flow_def js_def)
  have ne: "sample_flows \<noteq> []"
    by (simp add: sample_flows_def)
  show ?thesis
    using aggregations_differ [where x = "flow ''2024-01-03'' ''Dealer_self'' 700000000 100000000"
        and acc = "(1, 2, 3)" and ys = "[flow ''2024-01-03'' ''Dealer'' 8 2]"
        and xs = "[flow ''2024-01-03'' ''Foreign_Investor'' 100 40]"
        and stockId = "js ''2330''" and ok = True and rows = sample_flows and env = decimal_env
        and ok' = True and rename = name] n ne
    by (simp add: decimal_env_def)
qed

section \<open>Empty data and failures\<close>

text \<open>
  C4, as stated, fails for \<open>fetchStockData\<close>: on an empty or missing price array it returns
  the object \<open>{error: true, id}\<close>, which has no status and is the very value it returns on
  a failure.  It also fails for a response that is not \<open>res.ok\<close> in \<open>fetchMarketIndex\<close>,
  which throws before it reads the body and so reports \<open>error\<close>.
\<close>

theorem empty_data_counterexample:
  "fst (fetchStockData decimal_env NetworkFailure (Response True (Envelope (Some [])))
         NetworkFailure (js ''2330'') initial) = StockError True (js ''2330'') \<and>
   si_status (fst (fetchStockData decimal_env NetworkFailure (Response True (Envelope (Some [])))
         NetworkFailure (js ''2330'') initial)) = None \<and>
   fst (fetchStockData decimal_env NetworkFailure NetworkFailure
         NetworkFailure (js ''2330'') initial) = StockError True (js ''2330'') \<and>
   fetchMarketIndex decimal_env (Response False (Envelope None)) = MarketIndexStatus (js ''error'') \<and>
   js ''error'' \<noteq> js ''nodata''"
  by (simp add: fetchStockData_result fetchStockData_try_def fetch_defs js_def)

text \<open>
  C4, amended.  On an envelope whose data array is empty or missing, \<open>fetchMarketIndex\<close>
  and \<open>fetchInstitutionalInvestors\<close> return the status \<open>nodata\<close> (in \<open>status\<close> and in
  \<open>apiStatus\<close>) when the response is \<open>res.ok\<close>, \<open>fetchStockInstitutionalData\<close> returns the
  status \<open>nodata\<close>, and \<open>fetchStockData\<close> returns the error flag \<open>{error: true, id}\<close>;
  none of them throws.
\<close>

theorem empty_data_status:
  fixes env :: "('n::{zero,plus,minus,times,divide,ord}) js_number"
  shows
  "(prices = None \<or> prices = Some [] \<longrightarrow>
      fetchMarketIndex env (Response True (Envelope prices)) = MarketIndexStatus (js ''nodata'') \<and>
      fst (fetchStockData env listRes (Response ok (Envelope prices)) perRes stockId s)
        = StockError True stockId) \<and>
   (flows = None \<or> flows = Some [] \<longrightarrow>
      fetchInstitutionalInvestors env (Response True (Envelope flows))
        = FundFlowStatus (js ''nodata'') \<and>
      fetchStockInstitutionalData stockId (Response ok (Envelope flows))
        = (InstitutionalStatus (js ''nodata'') :: 'n institutional_data))"
  by (auto simp: fetchStockData_result fetchStockData_try_def fetch_defs)

theorem empty_data_status_witness:
  "fetchMarketIndex decimal_env (Response True (Envelope None)) = MarketIndexStatus (js ''nodata'') \<and>
   fst (fetchStockData decimal_env NetworkFailure (Response False (Envelope None)) NetworkFailure
          (js ''2330'') initial) = StockError True (js ''2330'') \<and>
   fetchInstitutionalInvestors decimal_env (Response True (Envelope (Some [])))
     = FundFlowStatus (js ''nodata'') \<and>
   fetchStockInstitutionalData (js ''2330'') (Response False (Envelope (Some [])))
     = (InstitutionalStatus (js ''nodata'') :: real institutional_data)"
  using empty_data_status [where prices = None and env = decimal_env and listRes = NetworkFailure
      and ok = False and perRes = NetworkFailure and stockId = "js ''2330''" and s = initial
      and flows = "Some []"]
  by simp

lemma fetchMarketIndex_error_iff:
  "fetchMarketIndex env res = MarketIndexStatus (js ''error'') \<longleftrightarrow>
     res = NetworkFailure \<or> (\<exists>b. res = Response False b) \<or> res = Response True Unparseable"
  using status_names_distinct
  by (auto simp: fetchMarketIndex_def fetchMarketIndex_try_def Let_def
      split: http.splits http_body.splits option.splits)

lemma fetchInstitutionalInvestors_error_iff:
  "fetchInstitutionalInvestors env res = FundFlowStatus (js ''error'') \<longleftrightarrow>
     res = NetworkFailure \<or> (\<exists>b. res = Response False b) \<or> res = Response True Unparseable"
  using status_names_distinct
  by (auto simp: fetchInstitutionalInvestors_def fetchInstitutionalInvestors_try_def Let_def
      split: http.splits http_body.splits option.splits)

lemma fetchStockInstitutionalData_error_iff:
  "fetchStockInstitutionalData stockId res = InstitutionalStatus (js ''error'') \<longleftrightarrow>
     res = NetworkFailure \<or> (\<exists>ok. res = Response ok Unparseable)"
  using status_names_distinct
  by (auto simp: fetchStockInstitutionalData_def fetchStockInstitutionalData_try_def Let_def
      split: http.splits http_body.splits option.splits prod.splits)

lemma fetchStockData_error_iff:
  "fst (fetchStockData env listRes priceRes perRes stockId s) = StockError True stockId \<longleftrightarrow>
     priceRes = NetworkFailure \<or> (\<exists>ok. priceRes = Response ok Unparseable) \<or>
     (\<exists>ok. priceRes = Response ok (Envelope None)) \<or>
     (\<exists>ok. priceRes = Response ok (Envelope (Some []))) \<or>
     perRes = NetworkFailure \<or> (\<exists>ok. perRes = Response ok Unparseable)"
  by (auto simp: fetchStockData_result fetchStockData_try_def Let_def
      split: http.splits http_body.splits option.splits)

text \<open>
  C5, as stated, fails in two ways.  \<open>fetchStockInstitutionalData\<close> does not test \<open>res.ok\<close>:
  a response that is not ok and carries no data gives \<open>nodata\<close>, where a rejected request
  gives \<open>error\<close>.  And in \<open>fetchStockData\<close> a rejected request for the stock list is
  absorbed by \<open>getStockList\<close>: the result is a success whose name is the identifier.
\<close>

theorem failure_values_counterexample:
  "fetchStockInstitutionalData (js ''2330'') (Response False (Envelope None))
     = (InstitutionalStatus (js ''nodata'') :: real institutional_data) \<and>
   fetchStockInstitutionalData (js ''2330'') NetworkFailure
     = (InstitutionalStatus (js ''error'') :: real institutional_data) \<and>
   js ''nodata'' \<noteq> js ''error'' \<and>
   fst (fetchStockData decimal_env NetworkFailure (Response True (Envelope (Some [sample_bar])))
          (Response True (Envelope None)) (js ''2330'') initial)
     = StockInfo (js ''2330'') (js ''2330'') 105 0 0 2500000000 None None [sample_bar]
         (js ''2024-01-03'') (js ''success'')"
  by (simp add: fetch_defs fetchStockData_result fetchStockData_try_def fetchStockName_result
      getStockList_unfetched initial_def previous_single sample_bar_def bar_def decimal_defs
      status_names_distinct)

text \<open>
  C5, amended.  No fetch operation throws, and each has one error value: the status
  \<open>error\<close> (\<open>apiStatus\<close> for \<open>fetchInstitutionalInvestors\<close>), or \<open>{error: true, id}\<close> for
  \<open>fetchStockData\<close>.  \<open>fetchMarketIndex\<close> and \<open>fetchInstitutionalInvestors\<close> return it exactly
  when the request is rejected, the response is not \<open>res.ok\<close> or the body does not parse;
  \<open>fetchStockInstitutionalData\<close> exactly when the request is rejected or the body does not
  parse; \<open>fetchStockData\<close> exactly when its price or PER request is rejected or the body of
  either does not parse, or the price data is empty or missing.  The last two operations
  do not test \<open>res.ok\<close>: a response that is not ok is read like one that is.  A failure of
  the request for the stock list inside \<open>fetchStockData\<close> is not an error of the operation:
  the name falls back to the identifier.
\<close>

theorem failures_collapse:
  fixes env :: "('n::{zero,plus,minus,times,divide,ord}) js_number"
  shows
  "(fetchMarketIndex env priceRes = MarketIndexStatus (js ''error'') \<longleftrightarrow>
      priceRes = NetworkFailure \<or> (\<exists>b. priceRes = Response False b) \<or>
      priceRes = Response True Unparseable) \<and>
   (fetchInstitutionalInvestors env flowRes = FundFlowStatus (js ''error'') \<longleftrightarrow>
      flowRes = NetworkFailure \<or> (\<exists>b. flowRes = Response False b) \<or>
      flowRes = Response True Unparseable) \<and>
   (fetchStockInstitutionalData stockId flowRes
        = (InstitutionalStatus (js ''error'') :: 'n institutional_data) \<longleftrightarrow>
      flowRes = NetworkFailure \<or> (\<exists>ok. flowRes = Response ok Unparseable)) \<and>
   (fst (fetchStockData env listRes priceRes perRes stockId s) = StockError True stockId \<longleftrightarrow>
      priceRes = NetworkFailure \<or> (\<exists>ok. priceRes = Response ok Unparseable) \<or>
      (\<exists>ok. priceRes = Response ok (Envelope None)) \<or>
      (\<exists>ok. priceRes = Response ok (Envelope (Some []))) \<or>
      perRes = NetworkFailure \<or> (\<exists>ok. perRes = Response ok Unparseable)) \<and>
   fetchStockInstitutionalData stockId (Response False flowBody)
     = (fetchStockInstitutionalData stockId (Response True flowBody) :: 'n institutional_data) \<and>
   fst (fetchStockData env listRes (Response ok priceBody) (Response ok' perBody) stockId s)
     = fst (fetchStockData env listRes (Response True priceBody) (Response True perBody) stockId s) \<and>
   (stockListCache s = None \<and> (\<forall>ok d. listRes \<noteq> Response ok (Envelope (Some d))) \<and>
    history \<noteq> [] \<longrightarrow>
      si_status (fst (fetchStockData env listRes (Response ok (Envelope (Some history)))
                        (Response ok' (Envelope rows)) stockId s)) = Some (js ''success'') \<and>
      si_name (fst (fetchStockData env listRes (Response ok (Envelope (Some history)))
                      (Response ok' (Envelope rows)) stockId s)) = stockId)"
proof (intro conjI impI)
  show "fetchMarketIndex env priceRes = MarketIndexStatus (js ''error'') \<longleftrightarrow>
      priceRes = NetworkFailure \<or> (\<exists>b. priceRes = Response False b) \<or>
      priceRes = Response True Unparseable"
    by (rule fetchMarketIndex_error_iff)
  show "fetchInstitutionalInvestors env flowRes = FundFlowStatus (js ''error'') \<longleftrightarrow>
      flowRes = NetworkFailure \<or> (\<exists>b. flowRes = Response False b) \<or>
      flowRes = Response True Unparseable"
    by (rule fetchInstitutionalInvestors_error_iff)
  show "fetchStockInstitutionalData stockId flowRes
        = (InstitutionalStatus (js ''error'') :: 'n institutional_data) \<longleftrightarrow>
      flowRes = NetworkFailure \<or> (\<exists>ok. flowRes = Response ok Unparseable)"
    by (rule fetchStockInstitutionalData_error_iff)
  show "fst (fetchStockData env listRes priceRes perRes stockId s) = StockError True stockId \<longleftrightarrow>
      priceRes = NetworkFailure \<or> (\<exists>ok. priceRes = Response ok Unparseable) \<or>
      (\<exists>ok. priceRes = Response ok (Envelope None)) \<or>
      (\<exists>ok. priceRes = Response ok (Envelope (Some []))) \<or>
      perRes = NetworkFailure \<or> (\<exists>ok. perRes = Response ok Unparseable)"
    by (rule fetchStockData_error_iff)
  show "fetchStockInstitutionalData stockId (Response False flowBody)
     = (fetchStockInstitutionalData stockId (Response True flowBody) :: 'n institutional_data)"
    by (simp add: fetchStockInstitutionalData_def fetchStockInstitutionalData_try_def)
  show "fst (fetchStockData env listRes (Response ok priceBody) (Response ok' perBody) stockId s)
     = fst (fetchStockData env listRes (Response True priceBody) (Response True perBody) stockId s)"
    by (simp add: fetchStockData_result fetchStockData_try_def
        split: http_body.splits option.splits)
next
  assume a: "stockListCache s = None \<and> (\<forall>ok d. listRes \<noteq> Response ok (Envelope (Some d))) \<and>
    history \<noteq> []"
  then have n: "fst (fetchStockName listRes stockId s) = stockId"
    by (simp add: fetchStockName_result getStockList_unfetched)
  show "si_status (fst (fetchStockData env listRes (Response ok (Envelope (Some history)))
                        (Response ok' (Envelope rows)) stockId s)) = Some (js ''success'')"
    using a by (simp add: fetchStockData_result fetchStockData_try_def Let_def)
  show "si_name (fst (fetchStockData env listRes (Response ok (Envelope (Some history)))
                      (Response ok' (Envelope rows)) stockId s)) = stockId"
    using a by (simp add: fetchStockData_result fetchStockData_try_def Let_def n)
qed

theorem failures_collapse_witness:
  "stockListCache initial = None \<and> [sample_bar] \<noteq> [] \<and>
   si_status (fst (fetchStockData decimal_env NetworkFailure
       (Response True (Envelope (Some [sample_bar]))) (Response True (Envelope None))
       (js ''2330'') initial)) = Some (js ''success'') \<and>
   si_name (fst (fetchStockData decimal_env NetworkFailure
       (Response True (Envelope (Some [sample_bar]))) (Response True (Envelope None))
       (js ''2330'') initial)) = js ''2330'' \<and>
   fetchMarketIndex decimal_env (Response True Unparseable) = MarketIndexStatus (js ''error'')"
proof -
  have h: "stockListCache initial = None" "[sample_bar] \<noteq> []"
    "\<forall>ok d. (NetworkFailure :: stock_entry http) \<noteq> Response ok (Envelope (Some d))"
    by (simp_all add: initial_def)
  note t = failures_collapse [where env = decimal_env and priceRes = "Response True Unparseable"
      and flowRes = NetworkFailure and stockId = "js ''2330''" and perRes = NetworkFailure
      and listRes = NetworkFailure and s = initial and history = "[sample_bar]" and ok = True
      and ok' = True and rows = None and flowBody = Unparseable and priceBody = Unparseable
      and perBody = Unparseable]
  from t h show ?thesis
    by blast
qed

text \<open>
  C6.  When the request of \<open>getGeminiAnalysis\<close> is rejected or the text of the response
  does not parse, the call does not return a value: the exception caught is thrown again,
  the very same one.
\<close>

theorem gemini_rethrows:
  "(is_StockInfo stockData \<and> getGeminiAnalysis_try parse out = Inl e \<longrightarrow>
      getGeminiAnalysis parse out stockData = Inl e) \<and>
   (is_StockInfo stockData \<longrightarrow> getGeminiAnalysis parse (GenRejected e') stockData = Inl e') \<and>
   (is_StockInfo stockData \<and> parse (text_or_default reply) = None \<longrightarrow>
      getGeminiAnalysis parse (GenResponse reply) stockData = Inl SyntaxError)"
  by (simp add: getGeminiAnalysis_def getGeminiAnalysis_try_def)

theorem gemini_rethrows_witness:
  "is_StockInfo sample_info \<and>
   getGeminiAnalysis_try (\<lambda>t. None :: unit option) (GenRejected (GenerateContentRejected (js ''503'')))
     = Inl (GenerateContentRejected (js ''503'')) \<and>
   getGeminiAnalysis (\<lambda>t. None :: unit option) (GenRejected (GenerateContentRejected (js ''503'')))
     sample_info = Inl (GenerateContentRejected (js ''503'')) \<and>
   (\<lambda>t. None :: unit option) (text_or_default (Some (js ''not json''))) = None \<and>
   getGeminiAnalysis (\<lambda>t. None :: unit option) (GenResponse (Some (js ''not json''))) sample_info
     = Inl SyntaxError"
proof -
  have h1: "is_StockInfo sample_info"
    by (simp add: sample_info_def)
  have h2: "getGeminiAnalysis_try (\<lambda>t. None :: unit option)
      (GenRejected (GenerateContentRejected (js ''503''))) = Inl (GenerateContentRejected (js ''503''))"
    by (simp add: getGeminiAnalysis_try_def)
  from h1 h2
    gemini_rethrows [where stockData = sample_info and parse = "\<lambda>t. None :: unit option"
      and out = "GenRejected (GenerateContentRejected (js ''503''))"
      and e = "GenerateContentRejected (js ''503'')"
      and e' = "GenerateContentRejected (js ''503'')" and reply = "Some (js ''not json'')"]
  show ?thesis
    by simp
qed

section \<open>Change and percent\<close>



end
